theory Spec2Isabelle
  imports Main
begin

section \<open>SharedLibrary.hpp: a wrapper around the platform's dynamic loader\<close>

text \<open>
  The development embeds \<^verbatim>\<open>src/SharedLibrary.hpp\<close> for the POSIX build (the
  \<^verbatim>\<open>#else\<close> branch of the file): the base class \<^verbatim>\<open>SharedLibraryBase\<close>, the
  backend \<^verbatim>\<open>SharedLibraryPosix\<close>, the factory and the binding helper.

  Conventions.
  \<^item> A \<^verbatim>\<open>void*\<close> is a natural number, \<open>0\<close> being \<^verbatim>\<open>nullptr\<close>.
  \<^item> A \<^verbatim>\<open>throw\<close> is the left injection of a sum; the object and the linker keep
    the changes made before the throw, as in C++.
  \<^item> The members \<^verbatim>\<open>libPath_\<close>, \<^verbatim>\<open>delayLoad_\<close>, \<^verbatim>\<open>flag_\<close>, \<^verbatim>\<open>handle_\<close> lose their
    trailing underscore, which Isabelle does not accept in a name.
\<close>

subsection \<open>The dynamic linker (\<^verbatim>\<open>dlfcn.h\<close>), the environment of the program\<close>

type_synonym ptr = nat

datatype rtld_flag = RTLD_LAZY | RTLD_NOW | RTLD_LOCAL | RTLD_GLOBAL

text \<open>Every call into the linker is logged with its arguments.\<close>

datatype dl_call =
    Dlopen string "rtld_flag set"
  | Dlclose ptr
  | Dlsym ptr string
  | Dlerror

text \<open>
  The linker is not part of the repository; it is a parameter of every theorem.
  \<^item> \<open>loadable\<close>: the handle \<^verbatim>\<open>dlopen\<close> gives for a path, null for a path it
    cannot load;
  \<^item> \<open>symtab\<close>: the symbols behind a handle, with their addresses;
  \<^item> \<open>refs\<close>: how often a handle is open (\<^verbatim>\<open>dlopen\<close> counts references);
  \<^item> \<open>dl_err\<close>: the linker's error state, read and cleared by \<^verbatim>\<open>dlerror\<close>;
  \<^item> \<open>diagnosis\<close>: the text the linker reports for a failed call;
  \<^item> \<open>calls\<close>: the log.
\<close>

record linker =
  loadable :: "string \<Rightarrow> ptr"
  symtab :: "ptr \<Rightarrow> string \<Rightarrow> ptr option"
  refs :: "ptr \<Rightarrow> nat"
  dl_err :: "string option"
  diagnosis :: "dl_call \<Rightarrow> string"
  calls :: "dl_call list"

definition logged :: "dl_call \<Rightarrow> linker \<Rightarrow> linker" where
  "logged c d = d\<lparr>calls := calls d @ [c]\<rparr>"

definition failed :: "dl_call \<Rightarrow> linker \<Rightarrow> linker" where
  "failed c d = logged c (d\<lparr>dl_err := Some (diagnosis d c)\<rparr>)"

text \<open>\<^verbatim>\<open>dlopen\<close>: a handle that is not null, or null with the error state set.\<close>

definition dlopen :: "string \<Rightarrow> rtld_flag set \<Rightarrow> linker \<Rightarrow> ptr \<times> linker" where
  "dlopen path fl d =
     (let h = loadable d path in
      if h = 0 then (0, failed (Dlopen path fl) d)
      else (h, logged (Dlopen path fl) (d\<lparr>refs := (refs d)(h := Suc (refs d h))\<rparr>)))"

text \<open>\<^verbatim>\<open>dlclose\<close>: \<open>0\<close> on success; the wrapper ignores the result.\<close>

definition dlclose :: "ptr \<Rightarrow> linker \<Rightarrow> int \<times> linker" where
  "dlclose h d =
     (if 0 < refs d h
      then (0, logged (Dlclose h) (d\<lparr>refs := (refs d)(h := refs d h - 1)\<rparr>))
      else (- 1, failed (Dlclose h) d))"

text \<open>What a lookup through an open handle finds.\<close>

definition lookup_symbol :: "linker \<Rightarrow> ptr \<Rightarrow> string \<Rightarrow> ptr option" where
  "lookup_symbol d h name = (if 0 < refs d h then symtab d h name else None)"

text \<open>
  \<^verbatim>\<open>dlsym\<close>: the address of the symbol (which may itself be null), or null with the
  error state set.
\<close>

definition dlsym :: "ptr \<Rightarrow> string \<Rightarrow> linker \<Rightarrow> ptr \<times> linker" where
  "dlsym h name d =
     (case lookup_symbol d h name of
        None \<Rightarrow> (0, failed (Dlsym h name) d)
      | Some p \<Rightarrow> (p, logged (Dlsym h name) d))"

text \<open>\<^verbatim>\<open>dlerror\<close>: the error since the last call of \<^verbatim>\<open>dlerror\<close>, which it clears.\<close>

definition dlerror :: "linker \<Rightarrow> string option \<times> linker" where
  "dlerror d = (dl_err d, logged Dlerror (d\<lparr>dl_err := None\<rparr>))"

subsection \<open>Strings and errors\<close>

text \<open>\<^verbatim>\<open>std::string::c_str()\<close> as a C function reads it: up to the first NUL.\<close>

definition c_str :: "string \<Rightarrow> string" where
  "c_str s = takeWhile (\<lambda>c. c \<noteq> CHR 0x00) s"

text \<open>
  \<^verbatim>\<open>std::runtime_error\<close> with its message. \<open>UndefinedBehaviour\<close> stands for the one
  place where the program would leave the language: appending a null
  \<^verbatim>\<open>const char*\<close> to a \<^verbatim>\<open>std::string\<close>.
\<close>

datatype error = RuntimeError string | UndefinedBehaviour

text \<open>
  The ten bytes between the quotes on line 141 of the source, as the file stores them:
  a blank, the eight bytes of its dash, a blank.
\<close>

definition dash :: string where
  "dash = [CHR '' '', CHR 0xC3, CHR 0xA2, CHR 0xE2, CHR 0x82, CHR 0xAC,
           CHR 0xE2, CHR 0x80, CHR 0x9C, CHR '' '']"

text \<open>\<^verbatim>\<open>throwLastError(api, extra)\<close>: the exception it throws.\<close>

definition throwLastError :: "string \<Rightarrow> string option \<Rightarrow> error" where
  "throwLastError api extra =
     (let msg = api @ '' failed'' in
      case extra of
        Some e \<Rightarrow> RuntimeError (msg @ dash @ e)
      | None \<Rightarrow> RuntimeError msg)"

subsection \<open>The object\<close>

text \<open>
  The data members of \<^verbatim>\<open>SharedLibraryBase\<close>. \<open>flag\<close> is the \<^verbatim>\<open>std::once_flag\<close>:
  true once a \<^verbatim>\<open>call_once\<close> on it has run its function to a normal return.
\<close>

record SharedLibraryBase =
  libPath :: string
  delayLoad :: bool
  flag :: bool
  handle :: ptr

text \<open>
  The class declares its copy operations deleted and its move operations defaulted
  (lines 62 to 68). A \<^verbatim>\<open>std::once_flag\<close> can be neither copied nor moved, so with the
  member \<^verbatim>\<open>flag_\<close> the defaulted move operations are defined as deleted as well: the
  program has no operation that copies or moves an object, and the embedding has none.
\<close>

text \<open>What a member function leaves behind: its result, the object, the linker.\<close>

type_synonym 'a outcome = "(error + 'a) \<times> SharedLibraryBase \<times> linker"

text \<open>The constructor, reached through \<^verbatim>\<open>makeSharedLibrary(path, delayLoad)\<close>.\<close>

definition makeSharedLibrary :: "string \<Rightarrow> bool \<Rightarrow> SharedLibraryBase" where
  "makeSharedLibrary path delay =
     \<lparr>libPath = path, delayLoad = delay, flag = False, handle = 0\<rparr>"

definition isLoaded :: "SharedLibraryBase \<Rightarrow> bool" where
  "isLoaded s = (handle s \<noteq> 0)"

definition nativeHandle :: "SharedLibraryBase \<Rightarrow> ptr" where
  "nativeHandle s = handle s"

subsection \<open>The POSIX backend\<close>

definition nativeLoad :: "SharedLibraryBase \<times> linker \<Rightarrow> unit outcome" where
  "nativeLoad = (\<lambda>(s, d).
     let (h, d1) = dlopen (c_str (libPath s)) {RTLD_LAZY, RTLD_LOCAL} d in
     if h = 0 then
       (let (e, d2) = dlerror d1 in
        case e of
          None \<Rightarrow> (Inl UndefinedBehaviour, s, d2)
        | Some m \<Rightarrow> (Inl (RuntimeError (''dlopen failed: '' @ m)), s, d2))
     else (Inr (), s\<lparr>handle := h\<rparr>, d1))"

definition nativeUnload :: "SharedLibraryBase \<times> linker \<Rightarrow> SharedLibraryBase \<times> linker" where
  "nativeUnload = (\<lambda>(s, d).
     if handle s \<noteq> 0 then
       (let (r, d1) = dlclose (handle s) d in (s\<lparr>handle := 0\<rparr>, d1))
     else (s, d))"

definition rawGetSymbol :: "string \<Rightarrow> SharedLibraryBase \<times> linker \<Rightarrow> ptr \<times> linker" where
  "rawGetSymbol name = (\<lambda>(s, d).
     if handle s = 0 then (0, d)
     else
       (let (stale, d1) = dlerror d;
            (p, d2) = dlsym (handle s) name d1;
            (err, d3) = dlerror d2
        in if err \<noteq> None then (0, d3) else (p, d3)))"

text \<open>The one call of \<^verbatim>\<open>dlopen\<close> in the program, as the log records it.\<close>

definition load_call :: "SharedLibraryBase \<Rightarrow> dl_call" where
  "load_call s = Dlopen (c_str (libPath s)) {RTLD_LAZY, RTLD_LOCAL}"

subsection \<open>The public functions of the base class\<close>

definition loadNow :: "SharedLibraryBase \<times> linker \<Rightarrow> unit outcome" where
  "loadNow = (\<lambda>(s, d).
     if isLoaded s then (Inr (), s, d)
     else
       (case nativeLoad (s, d) of
          (Inl e, s1, d1) \<Rightarrow> (Inl e, s1, d1)
        | (Inr u, s1, d1) \<Rightarrow>
            if \<not> isLoaded s1
            then (Inl (throwLastError ''loadNow() failed'' None), s1, d1)
            else (Inr (), s1, d1)))"

text \<open>
  \<^verbatim>\<open>std::call_once(flag_, f)\<close>, as the C++ standard defines it: nothing when the flag
  is set; otherwise \<open>f\<close> runs, and the flag is set when \<open>f\<close> returns. When \<open>f\<close>
  throws, the exception goes to the caller and the flag stays unset.
\<close>

definition call_once ::
  "(SharedLibraryBase \<times> linker \<Rightarrow> unit outcome) \<Rightarrow> SharedLibraryBase \<times> linker \<Rightarrow> unit outcome"
where
  "call_once f = (\<lambda>(s, d).
     if flag s then (Inr (), s, d)
     else
       (case f (s, d) of
          (Inl e, s1, d1) \<Rightarrow> (Inl e, s1, d1)
        | (Inr u, s1, d1) \<Rightarrow> (Inr (), s1\<lparr>flag := True\<rparr>, d1)))"

definition ensureLoaded :: "SharedLibraryBase \<times> linker \<Rightarrow> unit outcome" where
  "ensureLoaded = call_once loadNow"

definition unload :: "SharedLibraryBase \<times> linker \<Rightarrow> SharedLibraryBase \<times> linker" where
  "unload = (\<lambda>(s, d).
     if isLoaded s then
       (let (s1, d1) = nativeUnload (s, d) in (s1\<lparr>handle := 0\<rparr>, d1))
     else (s, d))"

text \<open>\<^verbatim>\<open>get<_Func>(name)\<close>; the cast to the function type does not change the address.\<close>

definition get :: "string \<Rightarrow> SharedLibraryBase \<times> linker \<Rightarrow> ptr outcome" where
  "get name = (\<lambda>(s, d).
     case ensureLoaded (s, d) of
       (Inl e, s1, d1) \<Rightarrow> (Inl e, s1, d1)
     | (Inr u, s1, d1) \<Rightarrow>
         (let (p, d2) = rawGetSymbol name (s1, d1) in
          if p = 0 then (Inl (throwLastError ''GetProcAddress'' (Some name)), s1, d2)
          else (Inr p, s1, d2)))"

subsection \<open>Destination slots and batch binding\<close>

text \<open>
  The function pointer variables of the caller live in a store, from the address of a
  variable to the pointer it holds. A binding \<^verbatim>\<open>_FuncBinding{name, ptr}\<close>, as
  \<^verbatim>\<open>bind(name, out)\<close> builds it, is the name and the address of \<open>out\<close>. Two bindings
  may name the same variable.
\<close>

type_synonym store = "nat \<Rightarrow> ptr"

type_synonym FuncBinding = "string \<times> nat"

definition bind :: "string \<Rightarrow> nat \<Rightarrow> FuncBinding" where
  "bind name out = (name, out)"

type_synonym 'a outcome_st = "(error + 'a) \<times> SharedLibraryBase \<times> linker \<times> store"

text \<open>\<^verbatim>\<open>get(name, out)\<close>: \<^verbatim>\<open>out = get<_Func>(name)\<close>.\<close>

definition get_out ::
  "string \<Rightarrow> nat \<Rightarrow> SharedLibraryBase \<times> linker \<times> store \<Rightarrow> unit outcome_st" where
  "get_out name out = (\<lambda>(s, d, m).
     case get name (s, d) of
       (Inl e, s1, d1) \<Rightarrow> (Inl e, s1, d1, m)
     | (Inr p, s1, d1) \<Rightarrow> (Inr (), s1, d1, m(out := p)))"

text \<open>\<^verbatim>\<open>batchLoad_one(binding)\<close>: \<^verbatim>\<open>*binding.ptr = get<_Func>(binding.name)\<close>.\<close>

definition batchLoad_one ::
  "FuncBinding \<Rightarrow> SharedLibraryBase \<times> linker \<times> store \<Rightarrow> unit outcome_st" where
  "batchLoad_one b = (\<lambda>(s, d, m).
     case get (fst b) (s, d) of
       (Inl e, s1, d1) \<Rightarrow> (Inl e, s1, d1, m)
     | (Inr p, s1, d1) \<Rightarrow> (Inr (), s1, d1, m(snd b := p)))"

text \<open>
  \<^verbatim>\<open>batchLoad(bindings...)\<close>: the fold \<^verbatim>\<open>(batchLoad_one(bindings), ...)\<close> over the
  comma operator evaluates from left to right; an exception ends it.
\<close>

fun batchLoad ::
  "FuncBinding list \<Rightarrow> SharedLibraryBase \<times> linker \<times> store \<Rightarrow> unit outcome_st" where
  "batchLoad [] st = (Inr (), st)"
| "batchLoad (b # bs) st =
     (case batchLoad_one b st of
        (Inl e, st1) \<Rightarrow> (Inl e, st1)
      | (Inr u, st1) \<Rightarrow> batchLoad bs st1)"

subsection \<open>Clients: sequences of calls of the public functions\<close>

datatype api_call =
    LoadNow
  | EnsureLoaded
  | Unload
  | IsLoaded
  | NativeHandle
  | Get string
  | GetOut string nat
  | BatchLoad "FuncBinding list"

text \<open>What the caller sees of one call: a return, a returned value or an exception.\<close>

datatype reply = Returned | Answer bool | Address ptr | Threw error

definition reply_of :: "error + unit \<Rightarrow> reply" where
  "reply_of r = (case r of Inl e \<Rightarrow> Threw e | Inr u \<Rightarrow> Returned)"

fun step ::
  "api_call \<Rightarrow> SharedLibraryBase \<times> linker \<times> store \<Rightarrow> reply \<times> SharedLibraryBase \<times> linker \<times> store"
where
  "step LoadNow (s, d, m) = (case loadNow (s, d) of (r, s1, d1) \<Rightarrow> (reply_of r, s1, d1, m))"
| "step EnsureLoaded (s, d, m) =
     (case ensureLoaded (s, d) of (r, s1, d1) \<Rightarrow> (reply_of r, s1, d1, m))"
| "step Unload (s, d, m) = (case unload (s, d) of (s1, d1) \<Rightarrow> (Returned, s1, d1, m))"
| "step IsLoaded (s, d, m) = (Answer (isLoaded s), s, d, m)"
| "step NativeHandle (s, d, m) = (Address (nativeHandle s), s, d, m)"
| "step (Get name) (s, d, m) =
     (case get name (s, d) of
        (Inl e, s1, d1) \<Rightarrow> (Threw e, s1, d1, m)
      | (Inr p, s1, d1) \<Rightarrow> (Address p, s1, d1, m))"
| "step (GetOut name out) (s, d, m) =
     (case get_out name out (s, d, m) of (r, st1) \<Rightarrow> (reply_of r, st1))"
| "step (BatchLoad bs) (s, d, m) =
     (case batchLoad bs (s, d, m) of (r, st1) \<Rightarrow> (reply_of r, st1))"

text \<open>A client that catches every exception and goes on.\<close>

fun run ::
  "api_call list \<Rightarrow> SharedLibraryBase \<times> linker \<times> store
     \<Rightarrow> reply list \<times> SharedLibraryBase \<times> linker \<times> store"
where
  "run [] st = ([], st)"
| "run (c # cs) st =
     (case step c st of (r, st1) \<Rightarrow> (case run cs st1 of (rs, st2) \<Rightarrow> (r # rs, st2)))"

text \<open>The object with the load-mode flag overwritten.\<close>

definition set_delay :: "bool \<Rightarrow> SharedLibraryBase \<Rightarrow> SharedLibraryBase" where
  "set_delay b s = s\<lparr>delayLoad := b\<rparr>"

subsection \<open>Reading the log and the symbol tables\<close>

fun is_dlopen :: "dl_call \<Rightarrow> bool" where
  "is_dlopen (Dlopen path fl) = True"
| "is_dlopen c = False"

text \<open>How often the platform's load call has been made.\<close>

definition loads :: "linker \<Rightarrow> nat" where
  "loads d = length (filter is_dlopen (calls d))"

text \<open>A load call that asks for immediate resolution and for local visibility.\<close>

fun immediate_local :: "dl_call \<Rightarrow> bool" where
  "immediate_local (Dlopen path fl) = (RTLD_NOW \<in> fl \<and> RTLD_LOCAL \<in> fl)"
| "immediate_local c = False"

text \<open>
  The address a lookup of \<open>name\<close> through the handle \<open>h\<close> yields: null for the null
  handle, for a handle that is not open and for a name the image does not export.
\<close>

definition resolved :: "linker \<Rightarrow> ptr \<Rightarrow> string \<Rightarrow> ptr" where
  "resolved d h name =
     (if h = 0 then 0 else case lookup_symbol d h name of None \<Rightarrow> 0 | Some p \<Rightarrow> p)"

text \<open>The store after the bindings \<open>bs\<close> have been filled in, one after the other.\<close>

definition filled :: "linker \<Rightarrow> ptr \<Rightarrow> FuncBinding list \<Rightarrow> store \<Rightarrow> store" where
  "filled d h bs m = foldl (\<lambda>m' b. m'(snd b := resolved d h (fst b))) m bs"

subsection \<open>A small world to run the program in\<close>

text \<open>
  One library, \<^verbatim>\<open>libdemo.so\<close>, which the linker maps at the handle 7 and which
  exports \<^verbatim>\<open>alpha\<close> at 100 and \<^verbatim>\<open>gamma\<close> at 300; nothing is open yet.
\<close>

definition demo_linker :: linker where
  "demo_linker =
     \<lparr>loadable = (\<lambda>path. if path = ''libdemo.so'' then 7 else 0),
      symtab = (\<lambda>h name. if h = 7 \<and> name = ''alpha'' then Some 100
                          else if h = 7 \<and> name = ''gamma'' then Some 300 else None),
      refs = (\<lambda>h. 0),
      dl_err = None,
      diagnosis = (\<lambda>c. ''cannot open shared object file''),
      calls = []\<rparr>"

text \<open>The same linker with the library open once.\<close>

definition demo_linker_open :: linker where
  "demo_linker_open = demo_linker\<lparr>refs := (\<lambda>h. if h = 7 then 1 else 0)\<rparr>"

definition demo_lib :: SharedLibraryBase where
  "demo_lib = makeSharedLibrary ''libdemo.so'' False"

definition missing_lib :: SharedLibraryBase where
  "missing_lib = makeSharedLibrary ''libnone.so'' False"

text \<open>\<open>demo_lib\<close> after a successful \<^verbatim>\<open>ensureLoaded()\<close> in \<open>demo_linker\<close>.\<close>

definition loaded_lib :: SharedLibraryBase where
  "loaded_lib = \<lparr>libPath = ''libdemo.so'', delayLoad = False, flag = True, handle = 7\<rparr>"

text \<open>\<open>loaded_lib\<close> after \<^verbatim>\<open>unload()\<close>: the guard has fired, the handle is null.\<close>

definition spent_lib :: SharedLibraryBase where
  "spent_lib = \<lparr>libPath = ''libdemo.so'', delayLoad = False, flag = True, handle = 0\<rparr>"

text \<open>Three function pointer variables, at the addresses 1, 2 and 3, each holding 55.\<close>

definition demo_store :: store where
  "demo_store = (\<lambda>a. 55)"

text \<open>
  Batches for \<^verbatim>\<open>batchLoad\<close>: two with the unknown name \<^verbatim>\<open>beta\<close> second, one into
  three variables and one whose third binding names the variable of the first; and
  one of known names only.
\<close>

definition demo_batch :: "FuncBinding list" where
  "demo_batch = [bind ''alpha'' 1, bind ''beta'' 2, bind ''gamma'' 3]"

definition full_batch :: "FuncBinding list" where
  "full_batch = [bind ''alpha'' 1, bind ''gamma'' 3]"

definition aliased_batch :: "FuncBinding list" where
  "aliased_batch = [bind ''alpha'' 1, bind ''beta'' 2, bind ''gamma'' 1]"

section \<open>Properties\<close>

subsection \<open>The linker\<close>

lemma logged_fields [simp]:
  "loadable (logged c d) = loadable d" "symtab (logged c d) = symtab d"
  "refs (logged c d) = refs d" "dl_err (logged c d) = dl_err d"
  "diagnosis (logged c d) = diagnosis d" "calls (logged c d) = calls d @ [c]"
  by (simp_all add: logged_def)

lemma failed_fields [simp]:
  "loadable (failed c d) = loadable d" "symtab (failed c d) = symtab d"
  "refs (failed c d) = refs d" "dl_err (failed c d) = Some (diagnosis d c)"
  "diagnosis (failed c d) = diagnosis d" "calls (failed c d) = calls d @ [c]"
  by (simp_all add: failed_def)

lemma lookup_symbol_frame:
  "refs d' = refs d \<Longrightarrow> symtab d' = symtab d \<Longrightarrow> lookup_symbol d' = lookup_symbol d"
  by (simp add: lookup_symbol_def fun_eq_iff)

lemma lookup_symbol_simps [simp]:
  "lookup_symbol (logged c d) = lookup_symbol d"
  "lookup_symbol (failed c d) = lookup_symbol d"
  "lookup_symbol (d\<lparr>dl_err := e\<rparr>) = lookup_symbol d"
  by (rule lookup_symbol_frame; simp)+

lemma dlopen_ok:
  "loadable d path \<noteq> 0 \<Longrightarrow>
   dlopen path fl d =
     (loadable d path,
      logged (Dlopen path fl)
        (d\<lparr>refs := (refs d)(loadable d path := Suc (refs d (loadable d path)))\<rparr>))"
  by (simp add: dlopen_def Let_def)

lemma dlopen_fail: "loadable d path = 0 \<Longrightarrow> dlopen path fl d = (0, failed (Dlopen path fl) d)"
  by (simp add: dlopen_def Let_def)

lemma calls_dlclose: "calls (snd (dlclose h d)) = calls d @ [Dlclose h]"
  by (simp add: dlclose_def)

subsection \<open>Loading\<close>

lemma nativeLoad_ok:
  "loadable d (c_str (libPath s)) \<noteq> 0 \<Longrightarrow>
   nativeLoad (s, d) =
     (Inr (), s\<lparr>handle := loadable d (c_str (libPath s))\<rparr>,
      logged (load_call s)
        (d\<lparr>refs := (refs d)(loadable d (c_str (libPath s)) :=
                 Suc (refs d (loadable d (c_str (libPath s)))))\<rparr>))"
  by (simp add: nativeLoad_def dlopen_ok load_call_def)

lemma nativeLoad_fail:
  "loadable d (c_str (libPath s)) = 0 \<Longrightarrow>
   nativeLoad (s, d) =
     (Inl (RuntimeError (''dlopen failed: '' @ diagnosis d (load_call s))), s,
      logged Dlerror ((failed (load_call s) d)\<lparr>dl_err := None\<rparr>))"
  by (simp add: nativeLoad_def dlopen_fail dlerror_def load_call_def)

lemma loadNow_loaded: "isLoaded s \<Longrightarrow> loadNow (s, d) = (Inr (), s, d)"
  by (simp add: loadNow_def)

lemma loadNow_ok:
  "\<not> isLoaded s \<Longrightarrow> loadable d (c_str (libPath s)) \<noteq> 0 \<Longrightarrow>
   loadNow (s, d) =
     (Inr (), s\<lparr>handle := loadable d (c_str (libPath s))\<rparr>,
      logged (load_call s)
        (d\<lparr>refs := (refs d)(loadable d (c_str (libPath s)) :=
                 Suc (refs d (loadable d (c_str (libPath s)))))\<rparr>))"
  by (simp add: loadNow_def nativeLoad_ok isLoaded_def)

lemma loadNow_fail:
  "\<not> isLoaded s \<Longrightarrow> loadable d (c_str (libPath s)) = 0 \<Longrightarrow>
   loadNow (s, d) =
     (Inl (RuntimeError (''dlopen failed: '' @ diagnosis d (load_call s))), s,
      logged Dlerror ((failed (load_call s) d)\<lparr>dl_err := None\<rparr>))"
  by (simp add: loadNow_def nativeLoad_fail)

text \<open>
  Claim C4. \<^verbatim>\<open>loadNow()\<close> leaves no partial state. On a loaded handle it changes
  nothing, in the object or in the linker. On a handle that is not loaded it either
  returns with the handle set to the non-null handle the linker gave, or throws
  \<^verbatim>\<open>dlopen failed: \<close> followed by the linker's diagnosis and leaves the object as it
  was, so \<^verbatim>\<open>isLoaded()\<close> is false. Which of the two happens is decided by the linker
  alone. On the normal return the linker has made one call, the \<^verbatim>\<open>dlopen\<close> of the
  object's path, and holds the image open behind the handle now stored: its reference
  count is one more than before, hence positive, and lookups through the handle read
  the image's symbol table. On the failure the linker has made the failed \<^verbatim>\<open>dlopen\<close>
  and the \<^verbatim>\<open>dlerror\<close> that fetched the diagnosis, and no image has been opened or
  closed.
\<close>

theorem loadNow_atomic:
  assumes "loadNow (s, d) = (r, s', d')"
  shows "if isLoaded s then r = Inr () \<and> s' = s \<and> d' = d
         else if loadable d (c_str (libPath s)) \<noteq> 0
         then r = Inr () \<and> isLoaded s' \<and> nativeHandle s' \<noteq> 0
                \<and> s' = s\<lparr>handle := loadable d (c_str (libPath s))\<rparr>
                \<and> d' = logged (load_call s)
                          (d\<lparr>refs := (refs d)(loadable d (c_str (libPath s)) :=
                                   Suc (refs d (loadable d (c_str (libPath s)))))\<rparr>)
                \<and> calls d' = calls d @ [load_call s]
                \<and> refs d' = (refs d)(nativeHandle s' := Suc (refs d (nativeHandle s')))
                \<and> 0 < refs d' (nativeHandle s')
                \<and> lookup_symbol d' (nativeHandle s') = symtab d (nativeHandle s')
         else r = Inl (RuntimeError (''dlopen failed: '' @ diagnosis d (load_call s)))
                \<and> \<not> isLoaded s' \<and> nativeHandle s' = 0 \<and> s' = s
                \<and> d' = logged Dlerror ((failed (load_call s) d)\<lparr>dl_err := None\<rparr>)
                \<and> calls d' = calls d @ [load_call s, Dlerror]
                \<and> refs d' = refs d"
proof (cases "isLoaded s")
  case True
  then show ?thesis using assms by (simp add: loadNow_loaded)
next
  case unloaded: False
  show ?thesis
  proof (cases "loadable d (c_str (libPath s)) = 0")
    case True
    have "loadNow (s, d) =
        (Inl (RuntimeError (''dlopen failed: '' @ diagnosis d (load_call s))), s,
         logged Dlerror ((failed (load_call s) d)\<lparr>dl_err := None\<rparr>))"
      using unloaded True by (rule loadNow_fail)
    with assms have r: "r = Inl (RuntimeError (''dlopen failed: '' @ diagnosis d (load_call s)))"
      and s': "s' = s"
      and d': "d' = logged Dlerror ((failed (load_call s) d)\<lparr>dl_err := None\<rparr>)"
      by auto
    have c: "calls d' = calls d @ [load_call s, Dlerror]" by (simp add: d')
    have f: "refs d' = refs d" by (simp add: d')
    show ?thesis
      using unloaded True r s' d' c f by (simp add: isLoaded_def nativeHandle_def)
  next
    case False
    let ?h = "loadable d (c_str (libPath s))"
    have "loadNow (s, d) =
        (Inr (), s\<lparr>handle := ?h\<rparr>,
         logged (load_call s) (d\<lparr>refs := (refs d)(?h := Suc (refs d ?h))\<rparr>))"
      using unloaded False by (rule loadNow_ok)
    with assms have r: "r = Inr ()" and s': "s' = s\<lparr>handle := ?h\<rparr>"
      and d': "d' = logged (load_call s) (d\<lparr>refs := (refs d)(?h := Suc (refs d ?h))\<rparr>)"
      by auto
    have h: "nativeHandle s' = ?h" by (simp add: s' nativeHandle_def)
    have c: "calls d' = calls d @ [load_call s]" by (simp add: d')
    have f: "refs d' = (refs d)(?h := Suc (refs d ?h))" by (simp add: d')
    have p: "0 < refs d' ?h" by (simp add: f)
    have y: "symtab d' = symtab d" by (simp add: d')
    have k: "lookup_symbol d' ?h = symtab d ?h"
      using p by (simp add: lookup_symbol_def fun_eq_iff y)
    show ?thesis
      using unloaded False r s' d' c f p k h by (simp add: isLoaded_def)
  qed
qed

lemma demo_eval:
  "c_str ''libdemo.so'' = ''libdemo.so''" "c_str ''libnone.so'' = ''libnone.so''"
  by (simp_all add: c_str_def)

text \<open>
  The three cases of C4 in the small world: a path the linker cannot load, the demo
  library, and a handle that is loaded already; with the calls the linker has logged,
  the reference count of the image and a lookup through the new handle.
\<close>

theorem loadNow_atomic_witness:
  "\<not> isLoaded missing_lib
   \<and> fst (loadNow (missing_lib, demo_linker))
       = Inl (RuntimeError ''dlopen failed: cannot open shared object file'')
   \<and> \<not> isLoaded (fst (snd (loadNow (missing_lib, demo_linker))))
   \<and> \<not> isLoaded demo_lib
   \<and> fst (loadNow (demo_lib, demo_linker)) = Inr ()
   \<and> nativeHandle (fst (snd (loadNow (demo_lib, demo_linker)))) = 7
   \<and> isLoaded loaded_lib
   \<and> loadNow (loaded_lib, demo_linker_open) = (Inr (), loaded_lib, demo_linker_open)
   \<and> calls (snd (snd (loadNow (missing_lib, demo_linker))))
       = [Dlopen ''libnone.so'' {RTLD_LAZY, RTLD_LOCAL}, Dlerror]
   \<and> refs (snd (snd (loadNow (missing_lib, demo_linker)))) 7 = 0
   \<and> calls (snd (snd (loadNow (demo_lib, demo_linker))))
       = [Dlopen ''libdemo.so'' {RTLD_LAZY, RTLD_LOCAL}]
   \<and> refs (snd (snd (loadNow (demo_lib, demo_linker)))) 7 = 1
   \<and> lookup_symbol (snd (snd (loadNow (demo_lib, demo_linker)))) 7 ''alpha'' = Some 100"
proof -
  have a: "loadNow (missing_lib, demo_linker)
      = (fst (loadNow (missing_lib, demo_linker)), fst (snd (loadNow (missing_lib, demo_linker))),
         snd (snd (loadNow (missing_lib, demo_linker))))"
    by simp
  have b: "loadNow (demo_lib, demo_linker)
      = (fst (loadNow (demo_lib, demo_linker)), fst (snd (loadNow (demo_lib, demo_linker))),
         snd (snd (loadNow (demo_lib, demo_linker))))"
    by simp
  have c: "loadNow (loaded_lib, demo_linker_open)
      = (fst (loadNow (loaded_lib, demo_linker_open)),
         fst (snd (loadNow (loaded_lib, demo_linker_open))),
         snd (snd (loadNow (loaded_lib, demo_linker_open))))"
    by simp
  have u: "\<not> isLoaded missing_lib" "\<not> isLoaded demo_lib" "isLoaded loaded_lib"
    by (simp_all add: isLoaded_def missing_lib_def demo_lib_def loaded_lib_def
        makeSharedLibrary_def)
  have l: "loadable demo_linker (c_str (libPath missing_lib)) = 0"
    "loadable demo_linker (c_str (libPath demo_lib)) = 7"
    "diagnosis demo_linker (load_call missing_lib) = ''cannot open shared object file''"
    by (simp_all add: demo_linker_def missing_lib_def demo_lib_def makeSharedLibrary_def
        demo_eval)
  have w: "calls demo_linker = []" "refs demo_linker 7 = 0"
    "symtab demo_linker 7 ''alpha'' = Some 100"
    "load_call missing_lib = Dlopen ''libnone.so'' {RTLD_LAZY, RTLD_LOCAL}"
    "load_call demo_lib = Dlopen ''libdemo.so'' {RTLD_LAZY, RTLD_LOCAL}"
    by (simp_all add: demo_linker_def load_call_def missing_lib_def demo_lib_def
        makeSharedLibrary_def demo_eval)
  from loadNow_atomic [OF a] loadNow_atomic [OF b] loadNow_atomic [OF c] u l w
  show ?thesis
    by (simp add: isLoaded_def nativeHandle_def prod_eq_iff lookup_symbol_def)
qed


subsection \<open>The flags of the load call\<close>

text \<open>
  Claim C3, as amended. \<^verbatim>\<open>nativeLoad()\<close> of the POSIX backend calls \<^verbatim>\<open>dlopen\<close>
  once, on the path of the object, with the flags \<^verbatim>\<open>RTLD_LAZY | RTLD_LOCAL\<close>: lazy
  resolution and local visibility. When the load fails the only other call is the
  \<^verbatim>\<open>dlerror\<close> that fetches the diagnosis.
\<close>

theorem nativeLoad_flags:
  "calls (snd (snd (nativeLoad (s, d)))) =
     calls d @
       (if loadable d (c_str (libPath s)) = 0
        then [Dlopen (c_str (libPath s)) {RTLD_LAZY, RTLD_LOCAL}, Dlerror]
        else [Dlopen (c_str (libPath s)) {RTLD_LAZY, RTLD_LOCAL}])"
  by (simp add: nativeLoad_ok nativeLoad_fail load_call_def)

text \<open>
  Claim C3, as stated, fails: loading the demo library logs one \<^verbatim>\<open>dlopen\<close> whose
  flags do not hold \<^verbatim>\<open>RTLD_NOW\<close>, so it does not ask for immediate resolution.
\<close>

theorem nativeLoad_not_immediate:
  "calls (snd (snd (nativeLoad (demo_lib, demo_linker))))
     = [Dlopen ''libdemo.so'' {RTLD_LAZY, RTLD_LOCAL}]
   \<and> \<not> immediate_local (Dlopen ''libdemo.so'' {RTLD_LAZY, RTLD_LOCAL})"
  by (simp add: nativeLoad_def dlopen_def Let_def demo_linker_def demo_lib_def
      makeSharedLibrary_def demo_eval)

subsection \<open>Unloading\<close>

lemma unload_not_loaded: "\<not> isLoaded s \<Longrightarrow> unload (s, d) = (s, d)"
  by (simp add: unload_def)

lemma unload_loaded:
  "isLoaded s \<Longrightarrow> unload (s, d) = (s\<lparr>handle := 0\<rparr>, snd (dlclose (handle s) d))"
  by (simp add: unload_def nativeUnload_def isLoaded_def split: prod.splits)

text \<open>
  Claim C8. \<^verbatim>\<open>unload()\<close> is idempotent: unloading twice leaves the object and the
  linker as unloading once does. After it the native handle is null and
  \<^verbatim>\<open>isLoaded()\<close> is false. On a loaded handle it makes one call of \<^verbatim>\<open>dlclose\<close>, on
  the handle it held; on a handle that is not loaded it changes nothing and calls
  nothing, so the second of two calls releases nothing.
\<close>

theorem unload_idempotent:
  "unload (unload (s, d)) = unload (s, d)
   \<and> \<not> isLoaded (fst (unload (s, d)))
   \<and> nativeHandle (fst (unload (s, d))) = 0
   \<and> (if isLoaded s
      then unload (s, d) = (s\<lparr>handle := 0\<rparr>, snd (dlclose (handle s) d))
         \<and> calls (snd (unload (s, d))) = calls d @ [Dlclose (handle s)]
      else unload (s, d) = (s, d))"
proof (cases "isLoaded s")
  case True
  have u: "unload (s, d) = (s\<lparr>handle := 0\<rparr>, snd (dlclose (handle s) d))"
    using True by (rule unload_loaded)
  have n: "\<not> isLoaded (s\<lparr>handle := 0\<rparr>)" by (simp add: isLoaded_def)
  show ?thesis using True n by (simp add: u unload_not_loaded calls_dlclose nativeHandle_def)
next
  case False
  then show ?thesis by (simp add: unload_not_loaded isLoaded_def nativeHandle_def)
qed

subsection \<open>Looking symbols up\<close>

lemma rawGetSymbol_null: "handle s = 0 \<Longrightarrow> rawGetSymbol name (s, d) = (0, d)"
  by (simp add: rawGetSymbol_def)

lemma rawGetSymbol_open:
  "handle s \<noteq> 0 \<Longrightarrow>
   rawGetSymbol name (s, d) =
     (case lookup_symbol d (handle s) name of
        None \<Rightarrow> 0 | Some p \<Rightarrow> p,
      snd (dlerror (snd (dlsym (handle s) name (snd (dlerror d))))))"
  by (simp add: rawGetSymbol_def dlerror_def dlsym_def split: option.splits)

lemma rawGetSymbol_result: "fst (rawGetSymbol name (s, d)) = resolved d (handle s) name"
  by (cases "handle s = 0") (simp_all add: rawGetSymbol_null rawGetSymbol_open resolved_def)


lemma rawGetSymbol_lookup:
  "lookup_symbol (snd (rawGetSymbol name (s, d))) = lookup_symbol d"
  by (cases "handle s = 0")
    (simp_all add: rawGetSymbol_null rawGetSymbol_open dlerror_def dlsym_def split: option.splits)

lemma throwLastError_extra:
  "throwLastError api (Some e) = RuntimeError (api @ '' failed'' @ dash @ e)"
  by (simp add: throwLastError_def)

subsection \<open>The guard\<close>

lemma ensureLoaded_fired: "flag s \<Longrightarrow> ensureLoaded (s, d) = (Inr (), s, d)"
  by (simp add: ensureLoaded_def call_once_def)

lemma ensureLoaded_loaded:
  "\<not> flag s \<Longrightarrow> isLoaded s \<Longrightarrow> ensureLoaded (s, d) = (Inr (), s\<lparr>flag := True\<rparr>, d)"
  by (simp add: ensureLoaded_def call_once_def loadNow_loaded)

lemma ensureLoaded_ok:
  "\<not> flag s \<Longrightarrow> \<not> isLoaded s \<Longrightarrow> loadable d (c_str (libPath s)) \<noteq> 0 \<Longrightarrow>
   ensureLoaded (s, d) =
     (Inr (), s\<lparr>handle := loadable d (c_str (libPath s)), flag := True\<rparr>,
      logged (load_call s)
        (d\<lparr>refs := (refs d)(loadable d (c_str (libPath s)) :=
                 Suc (refs d (loadable d (c_str (libPath s)))))\<rparr>))"
  by (simp add: ensureLoaded_def call_once_def loadNow_ok)

lemma ensureLoaded_fail:
  "\<not> flag s \<Longrightarrow> \<not> isLoaded s \<Longrightarrow> loadable d (c_str (libPath s)) = 0 \<Longrightarrow>
   ensureLoaded (s, d) =
     (Inl (RuntimeError (''dlopen failed: '' @ diagnosis d (load_call s))), s,
      logged Dlerror ((failed (load_call s) d)\<lparr>dl_err := None\<rparr>))"
  by (simp add: ensureLoaded_def call_once_def loadNow_fail)

lemma ensureLoaded_cases:
  obtains (fired) "flag s" "ensureLoaded (s, d) = (Inr (), s, d)"
  | (loaded) "\<not> flag s" "isLoaded s" "ensureLoaded (s, d) = (Inr (), s\<lparr>flag := True\<rparr>, d)"
  | (ok) "\<not> flag s" "\<not> isLoaded s" "loadable d (c_str (libPath s)) \<noteq> 0"
      "ensureLoaded (s, d) =
        (Inr (), s\<lparr>handle := loadable d (c_str (libPath s)), flag := True\<rparr>,
         logged (load_call s)
          (d\<lparr>refs := (refs d)(loadable d (c_str (libPath s)) :=
                 Suc (refs d (loadable d (c_str (libPath s)))))\<rparr>))"
  | (fail) "\<not> flag s" "\<not> isLoaded s" "loadable d (c_str (libPath s)) = 0"
      "ensureLoaded (s, d) =
        (Inl (RuntimeError (''dlopen failed: '' @ diagnosis d (load_call s))), s,
         logged Dlerror ((failed (load_call s) d)\<lparr>dl_err := None\<rparr>))"
  using ensureLoaded_fired ensureLoaded_loaded ensureLoaded_ok ensureLoaded_fail
  by blast

subsection \<open>get\<close>

lemma get_after:
  "ensureLoaded (s, d) = (Inr (), s1, d1) \<Longrightarrow>
   get name (s, d) =
     (if resolved d1 (handle s1) name = 0
      then Inl (throwLastError ''GetProcAddress'' (Some name))
      else Inr (resolved d1 (handle s1) name),
      s1, snd (rawGetSymbol name (s1, d1)))"
  using rawGetSymbol_result [of name s1 d1]
  by (cases "rawGetSymbol name (s1, d1)") (auto simp add: get_def)

lemma get_thrown:
  "ensureLoaded (s, d) = (Inl e, s1, d1) \<Longrightarrow> get name (s, d) = (Inl e, s1, d1)"
  by (simp add: get_def)

text \<open>
  Claim C6. On a loaded library, \<^verbatim>\<open>get<_Func>(name)\<close> returns the address the
  lookup of \<open>name\<close> yields when there is one and it is not null. When the lookup
  yields none (or a null address) it throws an error whose message is the operation
  \<^verbatim>\<open>GetProcAddress\<close>, the word \<^verbatim>\<open>failed\<close>, a dash and the name asked for. Either way the
  object is as before, but for the guard, which has fired.
\<close>

theorem get_resolves:
  assumes "isLoaded s"
  shows "(lookup_symbol d (handle s) name = Some p \<and> p \<noteq> 0
            \<longrightarrow> fst (get name (s, d)) = Inr p)
       \<and> (lookup_symbol d (handle s) name = None \<or> lookup_symbol d (handle s) name = Some 0
            \<longrightarrow> fst (get name (s, d))
                  = Inl (RuntimeError (''GetProcAddress'' @ '' failed'' @ dash @ name)))
       \<and> fst (snd (get name (s, d))) = s\<lparr>flag := True\<rparr>"
proof -
  have h: "handle s \<noteq> 0" using assms by (simp add: isLoaded_def)
  obtain s1 where e: "ensureLoaded (s, d) = (Inr (), s1, d)"
    and s1: "s1 = s\<lparr>flag := True\<rparr>"
  proof (cases "flag s")
    case True
    then show ?thesis using that [of s] by (simp add: ensureLoaded_fired)
  next
    case False
    then show ?thesis using that [of "s\<lparr>flag := True\<rparr>"] assms
      by (simp add: ensureLoaded_loaded)
  qed
  have hs: "handle s1 = handle s" by (simp add: s1)
  show ?thesis
    using h by (auto simp add: get_after [OF e] hs resolved_def throwLastError_extra s1)
qed

lemma demo_open_eval:
  "lookup_symbol demo_linker_open (handle loaded_lib) ''alpha'' = Some 100"
  "lookup_symbol demo_linker_open (handle loaded_lib) ''beta'' = None"
  by (simp_all add: lookup_symbol_def demo_linker_open_def demo_linker_def loaded_lib_def)

text \<open>C6 in the small world: \<^verbatim>\<open>alpha\<close> is exported, \<^verbatim>\<open>beta\<close> is not.\<close>

theorem get_resolves_witness:
  "isLoaded loaded_lib
   \<and> lookup_symbol demo_linker_open (handle loaded_lib) ''alpha'' = Some 100
   \<and> fst (get ''alpha'' (loaded_lib, demo_linker_open)) = Inr 100
   \<and> lookup_symbol demo_linker_open (handle loaded_lib) ''beta'' = None
   \<and> fst (get ''beta'' (loaded_lib, demo_linker_open))
       = Inl (RuntimeError (''GetProcAddress failed'' @ dash @ ''beta''))
   \<and> fst (snd (get ''beta'' (loaded_lib, demo_linker_open))) = loaded_lib"
proof -
  have l: "isLoaded loaded_lib" by (simp add: isLoaded_def loaded_lib_def)
  have f: "loaded_lib\<lparr>flag := True\<rparr> = loaded_lib" by (simp add: loaded_lib_def)
  from get_resolves [OF l, of demo_linker_open "''alpha''" 100]
    get_resolves [OF l, of demo_linker_open "''beta''" 0] l f
  show ?thesis by (simp add: demo_open_eval)
qed

text \<open>
  Claim C7. On a handle that is not loaded, \<^verbatim>\<open>rawGetSymbol\<close> returns null and leaves
  the linker untouched: it calls neither \<^verbatim>\<open>dlsym\<close> nor \<^verbatim>\<open>dlerror\<close>. When the guard
  has fired as well, so that \<^verbatim>\<open>ensureLoaded()\<close> will not load again, \<^verbatim>\<open>get\<close> throws
  the error of a failed lookup, again without a call to the linker. In no state does
  \<^verbatim>\<open>get\<close> on an unloaded handle leave the defined behaviour of the language.
\<close>

theorem lookup_unloaded:
  assumes "\<not> isLoaded s"
  shows "rawGetSymbol name (s, d) = (0, d)
       \<and> (flag s \<longrightarrow>
            get name (s, d)
              = (Inl (RuntimeError (''GetProcAddress'' @ '' failed'' @ dash @ name)), s, d))
       \<and> fst (get name (s, d)) \<noteq> Inl UndefinedBehaviour"
proof -
  have h: "handle s = 0" using assms by (simp add: isLoaded_def)
  have a: "rawGetSymbol name (s, d) = (0, d)" using h by (rule rawGetSymbol_null)
  have b: "get name (s, d)
      = (Inl (RuntimeError (''GetProcAddress'' @ '' failed'' @ dash @ name)), s, d)"
    if "flag s"
    using that h
    by (simp add: get_after [OF ensureLoaded_fired] resolved_def rawGetSymbol_null
        throwLastError_extra)
  have c: "fst (get name (s, d)) \<noteq> Inl UndefinedBehaviour"
  proof (cases s d rule: ensureLoaded_cases)
    case fail
    then show ?thesis by (simp add: get_thrown)
  qed (simp_all add: get_after throwLastError_extra)
  from a b c show ?thesis by blast
qed


text \<open>C7 in the small world, on the handle that was loaded and then unloaded.\<close>

theorem lookup_unloaded_witness:
  "\<not> isLoaded spent_lib \<and> flag spent_lib
   \<and> rawGetSymbol ''alpha'' (spent_lib, demo_linker) = (0, demo_linker)
   \<and> get ''alpha'' (spent_lib, demo_linker)
       = (Inl (RuntimeError (''GetProcAddress failed'' @ dash @ ''alpha'')), spent_lib, demo_linker)"
proof -
  have u: "\<not> isLoaded spent_lib" by (simp add: isLoaded_def spent_lib_def)
  have f: "flag spent_lib" by (simp add: spent_lib_def)
  from lookup_unloaded [OF u, of "''alpha''" demo_linker] u f
  show ?thesis by simp
qed

subsection \<open>The load-mode flag\<close>

lemma set_delay_fields [simp]:
  "libPath (set_delay b s) = libPath s" "flag (set_delay b s) = flag s"
  "handle (set_delay b s) = handle s" "delayLoad (set_delay b s) = b"
  "isLoaded (set_delay b s) = isLoaded s" "nativeHandle (set_delay b s) = nativeHandle s"
  by (simp_all add: set_delay_def isLoaded_def nativeHandle_def)

lemma set_delay_updates [simp]:
  "set_delay b (s\<lparr>handle := h\<rparr>) = (set_delay b s)\<lparr>handle := h\<rparr>"
  "set_delay b (s\<lparr>flag := f\<rparr>) = (set_delay b s)\<lparr>flag := f\<rparr>"
  by (simp_all add: set_delay_def)

lemma nativeLoad_delay:
  "nativeLoad (set_delay b s, d) = apsnd (apfst (set_delay b)) (nativeLoad (s, d))"
  by (simp add: nativeLoad_def split: prod.splits option.splits)

lemma nativeUnload_delay:
  "nativeUnload (set_delay b s, d) = apfst (set_delay b) (nativeUnload (s, d))"
  by (simp add: nativeUnload_def split: prod.splits)

lemma rawGetSymbol_delay:
  "rawGetSymbol name (set_delay b s, d) = rawGetSymbol name (s, d)"
  by (simp add: rawGetSymbol_def)

lemma loadNow_delay:
  "loadNow (set_delay b s, d) = apsnd (apfst (set_delay b)) (loadNow (s, d))"
  by (simp add: loadNow_def nativeLoad_delay split: prod.splits sum.splits)

lemma ensureLoaded_delay:
  "ensureLoaded (set_delay b s, d) = apsnd (apfst (set_delay b)) (ensureLoaded (s, d))"
  by (simp add: ensureLoaded_def call_once_def loadNow_delay split: prod.splits sum.splits)

lemma unload_delay:
  "unload (set_delay b s, d) = apfst (set_delay b) (unload (s, d))"
  by (simp add: unload_def nativeUnload_delay split: prod.splits)

lemma get_delay:
  "get name (set_delay b s, d) = apsnd (apfst (set_delay b)) (get name (s, d))"
  by (simp add: get_def ensureLoaded_delay rawGetSymbol_delay split: prod.splits sum.splits)

lemma get_out_delay:
  "get_out name out (set_delay b s, d, m)
     = apsnd (apfst (set_delay b)) (get_out name out (s, d, m))"
  by (simp add: get_out_def get_delay split: prod.splits sum.splits)

lemma batchLoad_one_delay:
  "batchLoad_one bd (set_delay b s, d, m)
     = apsnd (apfst (set_delay b)) (batchLoad_one bd (s, d, m))"
  by (simp add: batchLoad_one_def get_delay split: prod.splits sum.splits)

lemma batchLoad_delay:
  "batchLoad bs (set_delay b s, d, m) = apsnd (apfst (set_delay b)) (batchLoad bs (s, d, m))"
proof (induction bs arbitrary: s d m)
  case Nil
  show ?case by simp
next
  case (Cons bd bs)
  show ?case
  proof (cases "batchLoad_one bd (s, d, m)")
    case (fields r s1 d1 m1)
    then show ?thesis
      by (cases r) (simp_all add: batchLoad_one_delay Cons.IH)
  qed
qed

lemma step_delay:
  "step c (set_delay b s, d, m) = apsnd (apfst (set_delay b)) (step c (s, d, m))"
  by (cases c)
    (simp_all add: loadNow_delay ensureLoaded_delay unload_delay get_delay get_out_delay
      batchLoad_delay split: prod.splits sum.splits)

lemma run_delay:
  "run cs (set_delay b s, d, m) = apsnd (apfst (set_delay b)) (run cs (s, d, m))"
proof (induction cs arbitrary: s d m)
  case Nil
  show ?case by simp
next
  case (Cons c cs)
  show ?case
  proof (cases "step c (s, d, m)")
    case (fields r s1 d1 m1)
    then show ?thesis
      by (simp add: step_delay Cons.IH split: prod.splits)
  qed
qed

text \<open>
  Claim C10. The load-mode flag changes nothing. Two handles built by
  \<^verbatim>\<open>makeSharedLibrary\<close> from the same path, one with \<^verbatim>\<open>delayLoad\<close> true and one with
  it false, answer every sequence of public calls (\<^verbatim>\<open>loadNow\<close>, \<^verbatim>\<open>ensureLoaded\<close>,
  \<^verbatim>\<open>unload\<close>, \<^verbatim>\<open>isLoaded\<close>, \<^verbatim>\<open>nativeHandle\<close>, both forms of \<^verbatim>\<open>get\<close>, \<^verbatim>\<open>batchLoad\<close>)
  with the same replies, values and exceptions alike, and end with the same linker,
  the same store and the same object, but for the flag itself.
\<close>

theorem delayLoad_never_read:
  "fst (run cs (makeSharedLibrary path True, d, m))
     = fst (run cs (makeSharedLibrary path False, d, m))
   \<and> snd (run cs (makeSharedLibrary path True, d, m))
     = apfst (set_delay True) (snd (run cs (makeSharedLibrary path False, d, m)))"
proof -
  have "makeSharedLibrary path True = set_delay True (makeSharedLibrary path False)"
    by (simp add: makeSharedLibrary_def set_delay_def)
  then show ?thesis by (simp add: run_delay)
qed

subsection \<open>Counting the load calls\<close>

lemma loads_simps [simp]:
  "loads (logged c d) = (if is_dlopen c then Suc (loads d) else loads d)"
  "loads (failed c d) = (if is_dlopen c then Suc (loads d) else loads d)"
  "loads (d\<lparr>dl_err := e\<rparr>) = loads d"
  "loads (d\<lparr>refs := r\<rparr>) = loads d"
  by (simp_all add: loads_def)

lemma loads_load_call [simp]: "is_dlopen (load_call s)"
  by (simp add: load_call_def)





lemma get_fired:
  "flag s \<Longrightarrow>
   get name (s, d) =
     (if resolved d (handle s) name = 0
      then Inl (throwLastError ''GetProcAddress'' (Some name))
      else Inr (resolved d (handle s) name),
      s, snd (rawGetSymbol name (s, d)))"
  by (rule get_after) (rule ensureLoaded_fired)

lemma batchLoad_one_fired:
  "flag s \<Longrightarrow>
   batchLoad_one b (s, d, m) =
     (if resolved d (handle s) (fst b) = 0
      then (Inl (throwLastError ''GetProcAddress'' (Some (fst b))), s,
            snd (rawGetSymbol (fst b) (s, d)), m)
      else (Inr (), s, snd (rawGetSymbol (fst b) (s, d)),
            m(snd b := resolved d (handle s) (fst b))))"
  by (simp add: batchLoad_one_def get_fired)








lemma ensureLoaded_flag:
  "flag (fst (snd (ensureLoaded (s, d)))) = (flag s \<or> fst (ensureLoaded (s, d)) = Inr ())"
  by (cases s d rule: ensureLoaded_cases) simp_all




subsection \<open>Batch binding\<close>

lemma resolved_frame: "lookup_symbol d' = lookup_symbol d \<Longrightarrow> resolved d' = resolved d"
  by (simp add: resolved_def fun_eq_iff)

lemma filled_frame:
  "lookup_symbol d' = lookup_symbol d \<Longrightarrow> filled d' h bs m = filled d h bs m"
  using resolved_frame [of d' d] by (simp add: filled_def)

lemma filled_Cons:
  "filled d h (b # bs) m = filled d h bs (m(snd b := resolved d h (fst b)))"
  by (simp add: filled_def)

lemma filled_outside: "a \<notin> snd ` set bs \<Longrightarrow> filled d h bs m a = m a"
  by (induction bs arbitrary: m) (simp_all add: filled_def)

lemma filled_nth:
  "i < length bs \<Longrightarrow> snd (bs ! i) \<notin> snd ` set (drop (Suc i) bs) \<Longrightarrow>
   filled d h bs m (snd (bs ! i)) = resolved d h (fst (bs ! i))"
proof (induction bs arbitrary: i m)
  case Nil
  then show ?case by simp
next
  case (Cons b bs)
  show ?case
  proof (cases i)
    case 0
    with Cons.prems show ?thesis by (simp add: filled_Cons filled_outside)
  next
    case (Suc j)
    with Cons.prems Cons.IH [of j] show ?thesis by (simp add: filled_Cons)
  qed
qed

lemma batchLoad_step:
  assumes "flag s" and "resolved d (handle s) (fst b) \<noteq> 0"
  shows "batchLoad (b # bs) (s, d, m) =
           batchLoad bs (s, snd (rawGetSymbol (fst b) (s, d)),
                         m(snd b := resolved d (handle s) (fst b)))"
  using assms(2) by (simp add: batchLoad_one_fired [OF assms(1)])

lemma batchLoad_stop:
  assumes "flag s" and "resolved d (handle s) (fst b) = 0"
  shows "batchLoad (b # bs) (s, d, m) =
           (Inl (throwLastError ''GetProcAddress'' (Some (fst b))), s,
            snd (rawGetSymbol (fst b) (s, d)), m)"
  using assms(2) by (simp add: batchLoad_one_fired [OF assms(1)])

lemma batchLoad_fired:
  assumes "flag s"
  shows "k < length bs \<Longrightarrow>
     \<forall>i<k. resolved d (handle s) (fst (bs ! i)) \<noteq> 0 \<Longrightarrow>
     resolved d (handle s) (fst (bs ! k)) = 0 \<Longrightarrow>
     fst (batchLoad bs (s, d, m)) = Inl (throwLastError ''GetProcAddress'' (Some (fst (bs ! k))))
     \<and> fst (snd (batchLoad bs (s, d, m))) = s
     \<and> snd (snd (snd (batchLoad bs (s, d, m)))) = filled d (handle s) (take k bs) m"
proof (induction bs arbitrary: k d m)
  case Nil
  then show ?case by simp
next
  case (Cons b bs)
  show ?case
  proof (cases k)
    case 0
    with Cons.prems have "resolved d (handle s) (fst b) = 0" by simp
    from batchLoad_stop [OF assms this] 0 show ?thesis
      by (simp add: filled_def)
  next
    case (Suc j)
    let ?d1 = "snd (rawGetSymbol (fst b) (s, d))"
    let ?m1 = "m(snd b := resolved d (handle s) (fst b))"
    have fr: "lookup_symbol ?d1 = lookup_symbol d" by (rule rawGetSymbol_lookup)
    have b: "resolved d (handle s) (fst b) \<noteq> 0"
      using Cons.prems(2) Suc by auto
    have j: "j < length bs" using Cons.prems(1) Suc by simp
    have pre: "\<forall>i<j. resolved ?d1 (handle s) (fst (bs ! i)) \<noteq> 0"
      using Cons.prems(2) Suc by (auto simp add: resolved_frame [OF fr])
    have at: "resolved ?d1 (handle s) (fst (bs ! j)) = 0"
      using Cons.prems(3) Suc by (simp add: resolved_frame [OF fr])
    have ih: "fst (batchLoad bs (s, ?d1, ?m1))
          = Inl (throwLastError ''GetProcAddress'' (Some (fst (bs ! j))))
        \<and> fst (snd (batchLoad bs (s, ?d1, ?m1))) = s
        \<and> snd (snd (snd (batchLoad bs (s, ?d1, ?m1)))) = filled ?d1 (handle s) (take j bs) ?m1"
      by (rule Cons.IH [OF j pre at])
    have f: "filled d (handle s) (take k (b # bs)) m = filled ?d1 (handle s) (take j bs) ?m1"
      by (simp add: Suc filled_Cons filled_frame [OF fr])
    have n: "(b # bs) ! k = bs ! j" by (simp add: Suc)
    show ?thesis
      unfolding batchLoad_step [OF assms b] f n by (rule ih)
  qed
qed

lemma batchLoad_all:
  assumes "flag s"
  shows "\<forall>b \<in> set bs. resolved d (handle s) (fst b) \<noteq> 0 \<Longrightarrow>
     fst (batchLoad bs (s, d, m)) = Inr ()
     \<and> snd (snd (snd (batchLoad bs (s, d, m)))) = filled d (handle s) bs m"
proof (induction bs arbitrary: d m)
  case Nil
  then show ?case by (simp add: filled_def)
next
  case (Cons b bs)
  let ?d1 = "snd (rawGetSymbol (fst b) (s, d))"
  let ?m1 = "m(snd b := resolved d (handle s) (fst b))"
  have fr: "lookup_symbol ?d1 = lookup_symbol d" by (rule rawGetSymbol_lookup)
  have b: "resolved d (handle s) (fst b) \<noteq> 0" using Cons.prems by simp
  have rest: "\<forall>b \<in> set bs. resolved ?d1 (handle s) (fst b) \<noteq> 0"
    using Cons.prems by (simp add: resolved_frame [OF fr])
  have ih: "fst (batchLoad bs (s, ?d1, ?m1)) = Inr ()
      \<and> snd (snd (snd (batchLoad bs (s, ?d1, ?m1)))) = filled ?d1 (handle s) bs ?m1"
    by (rule Cons.IH [OF rest])
  have f: "filled d (handle s) (b # bs) m = filled ?d1 (handle s) bs ?m1"
    by (simp add: filled_Cons filled_frame [OF fr])
  show ?case
    unfolding batchLoad_step [OF assms b] f by (rule ih)
qed

lemma ensureLoaded_returns_fired: "ensureLoaded (s, d) = (Inr (), s1, d1) \<Longrightarrow> flag s1"
  using ensureLoaded_flag [of s d] by simp

lemma get_through_guard:
  assumes "ensureLoaded (s, d) = (Inr (), s1, d1)"
  shows "get name (s, d) = get name (s1, d1)"
proof -
  have "flag s1" using assms by (rule ensureLoaded_returns_fired)
  then have "get name (s1, d1) =
     (if resolved d1 (handle s1) name = 0
      then Inl (throwLastError ''GetProcAddress'' (Some name))
      else Inr (resolved d1 (handle s1) name),
      s1, snd (rawGetSymbol name (s1, d1)))"
    by (rule get_fired)
  then show ?thesis unfolding get_after [OF assms] by simp
qed

lemma batchLoad_through_guard:
  assumes "ensureLoaded (s, d) = (Inr (), s1, d1)" and "bs \<noteq> []"
  shows "batchLoad bs (s, d, m) = batchLoad bs (s1, d1, m)"
proof -
  obtain b bs' where bs: "bs = b # bs'" using assms(2) by (cases bs) auto
  have "batchLoad_one b (s, d, m) = batchLoad_one b (s1, d1, m)"
    unfolding batchLoad_one_def prod.case get_through_guard [OF assms(1)] ..
  then show ?thesis by (simp add: bs)
qed

lemma batchLoad_thrown:
  assumes "ensureLoaded (s, d) = (Inl e, s1, d1)" and "bs \<noteq> []"
  shows "batchLoad bs (s, d, m) = (Inl e, s1, d1, m)"
proof -
  obtain b bs' where bs: "bs = b # bs'" using assms(2) by (cases bs) auto
  have "get (fst b) (s, d) = (Inl e, s1, d1)" using assms(1) by (rule get_thrown)
  then show ?thesis by (simp add: bs batchLoad_one_def)
qed

text \<open>
  Claim C5, as amended. \<^verbatim>\<open>batchLoad\<close> takes its bindings in the order given, each
  as \<^verbatim>\<open>get\<close> would, and stops at the first that fails. When the library cannot be
  loaded, the first binding fails with the load error and the store is untouched.
  Otherwise, when the names before position \<open>k\<close> resolve and the name at \<open>k\<close> does not,
  the call throws the lookup error of the name at \<open>k\<close>, and the store is the initial
  store with the addresses of the bindings before \<open>k\<close> written in order, and nothing
  else. So the variable of a binding before \<open>k\<close> holds its address unless a later
  binding before \<open>k\<close> names the same variable, and a variable that no binding before
  \<open>k\<close> names holds what it held, the variables of the bindings after \<open>k\<close> among them.
  When every name resolves, the call returns and every binding has been written, in
  order.
\<close>

theorem batchLoad_fail_fast:
  "(ensureLoaded (s, d) = (Inl e, s', d') \<and> bs \<noteq> [] \<longrightarrow>
      batchLoad bs (s, d, m) = (Inl e, s', d', m))
   \<and> (ensureLoaded (s, d) = (Inr (), s', d') \<longrightarrow>
        fst (get name (s, d)) =
          (if resolved d' (handle s') name = 0
           then Inl (RuntimeError (''GetProcAddress'' @ '' failed'' @ dash @ name))
           else Inr (resolved d' (handle s') name)))
   \<and> (ensureLoaded (s, d) = (Inr (), s', d') \<and> k < length bs
        \<and> (\<forall>i<k. resolved d' (handle s') (fst (bs ! i)) \<noteq> 0)
        \<and> resolved d' (handle s') (fst (bs ! k)) = 0 \<longrightarrow>
        fst (batchLoad bs (s, d, m))
          = Inl (RuntimeError (''GetProcAddress'' @ '' failed'' @ dash @ fst (bs ! k)))
        \<and> fst (snd (batchLoad bs (s, d, m))) = s'
        \<and> snd (snd (snd (batchLoad bs (s, d, m)))) = filled d' (handle s') (take k bs) m
        \<and> (\<forall>i<k. snd (bs ! i) \<notin> snd ` set (drop (Suc i) (take k bs)) \<longrightarrow>
              snd (snd (snd (batchLoad bs (s, d, m)))) (snd (bs ! i))
                = resolved d' (handle s') (fst (bs ! i)))
        \<and> (\<forall>a. a \<notin> snd ` set (take k bs) \<longrightarrow>
              snd (snd (snd (batchLoad bs (s, d, m)))) a = m a))
   \<and> (ensureLoaded (s, d) = (Inr (), s', d') \<and> bs \<noteq> []
        \<and> (\<forall>b \<in> set bs. resolved d' (handle s') (fst b) \<noteq> 0) \<longrightarrow>
        fst (batchLoad bs (s, d, m)) = Inr ()
        \<and> snd (snd (snd (batchLoad bs (s, d, m)))) = filled d' (handle s') bs m)"
proof -
  have thrown: "batchLoad bs (s, d, m) = (Inl e, s', d', m)"
    if "ensureLoaded (s, d) = (Inl e, s', d')" "bs \<noteq> []"
    using that by (rule batchLoad_thrown)
  have one: "fst (get name (s, d)) =
          (if resolved d' (handle s') name = 0
           then Inl (RuntimeError (''GetProcAddress'' @ '' failed'' @ dash @ name))
           else Inr (resolved d' (handle s') name))"
    if "ensureLoaded (s, d) = (Inr (), s', d')"
    by (simp add: get_after [OF that] throwLastError_extra)
  have batch: "fst (batchLoad bs (s, d, m))
          = Inl (RuntimeError (''GetProcAddress'' @ '' failed'' @ dash @ fst (bs ! k)))
        \<and> fst (snd (batchLoad bs (s, d, m))) = s'
        \<and> snd (snd (snd (batchLoad bs (s, d, m)))) = filled d' (handle s') (take k bs) m
        \<and> (\<forall>i<k. snd (bs ! i) \<notin> snd ` set (drop (Suc i) (take k bs)) \<longrightarrow>
              snd (snd (snd (batchLoad bs (s, d, m)))) (snd (bs ! i))
                = resolved d' (handle s') (fst (bs ! i)))
        \<and> (\<forall>a. a \<notin> snd ` set (take k bs) \<longrightarrow>
              snd (snd (snd (batchLoad bs (s, d, m)))) a = m a)"
    if e: "ensureLoaded (s, d) = (Inr (), s', d')" and k: "k < length bs"
      and pre: "\<forall>i<k. resolved d' (handle s') (fst (bs ! i)) \<noteq> 0"
      and at: "resolved d' (handle s') (fst (bs ! k)) = 0"
  proof -
    have f: "flag s'" using e by (rule ensureLoaded_returns_fired)
    have ne: "bs \<noteq> []" using k by auto
    have eq: "batchLoad bs (s, d, m) = batchLoad bs (s', d', m)"
      using e ne by (rule batchLoad_through_guard)
    note main = batchLoad_fired [OF f k pre at, of m]
    have st: "snd (snd (snd (batchLoad bs (s, d, m)))) = filled d' (handle s') (take k bs) m"
      using main by (simp add: eq)
    have written: "filled d' (handle s') (take k bs) m (snd (bs ! i))
        = resolved d' (handle s') (fst (bs ! i))"
      if "i < k" "snd (bs ! i) \<notin> snd ` set (drop (Suc i) (take k bs))" for i
      using filled_nth [of i "take k bs" d' "handle s'" m] that k by simp
    have kept: "filled d' (handle s') (take k bs) m a = m a"
      if "a \<notin> snd ` set (take k bs)" for a
      using that by (rule filled_outside)
    show ?thesis
      using main written kept
      by (simp add: eq st throwLastError_extra)
  qed
  have full: "fst (batchLoad bs (s, d, m)) = Inr ()
        \<and> snd (snd (snd (batchLoad bs (s, d, m)))) = filled d' (handle s') bs m"
    if e: "ensureLoaded (s, d) = (Inr (), s', d')" and ne: "bs \<noteq> []"
      and ok: "\<forall>b \<in> set bs. resolved d' (handle s') (fst b) \<noteq> 0"
  proof -
    have f: "flag s'" using e by (rule ensureLoaded_returns_fired)
    have eq: "batchLoad bs (s, d, m) = batchLoad bs (s', d', m)"
      using e ne by (rule batchLoad_through_guard)
    show ?thesis unfolding eq using ok by (rule batchLoad_all [OF f])
  qed
  from thrown one batch full show ?thesis by blast
qed


subsection \<open>Batch binding in the small world\<close>

text \<open>The states of the small world are states the program reaches.\<close>

lemma demo_lib_loads:
  "fst (ensureLoaded (demo_lib, demo_linker)) = Inr ()
   \<and> fst (snd (ensureLoaded (demo_lib, demo_linker))) = loaded_lib
   \<and> refs (snd (snd (ensureLoaded (demo_lib, demo_linker)))) = refs demo_linker_open"
proof -
  have a: "\<not> flag demo_lib" "\<not> isLoaded demo_lib"
    by (simp_all add: demo_lib_def makeSharedLibrary_def isLoaded_def)
  have l: "loadable demo_linker (c_str (libPath demo_lib)) = 7"
    by (simp add: demo_lib_def makeSharedLibrary_def demo_eval demo_linker_def)
  then have n: "loadable demo_linker (c_str (libPath demo_lib)) \<noteq> 0" by simp
  show ?thesis
    unfolding ensureLoaded_ok [OF a n] l
    by (simp add: demo_lib_def makeSharedLibrary_def loaded_lib_def demo_linker_open_def
        demo_linker_def fun_eq_iff)
qed

lemma loaded_lib_unloads: "fst (unload (loaded_lib, demo_linker_open)) = spent_lib"
proof -
  have "isLoaded loaded_lib" by (simp add: isLoaded_def loaded_lib_def)
  then show ?thesis by (simp add: unload_loaded loaded_lib_def spent_lib_def)
qed

lemma demo_resolved:
  "resolved demo_linker_open (handle loaded_lib) ''alpha'' = 100"
  "resolved demo_linker_open (handle loaded_lib) ''beta'' = 0"
  "resolved demo_linker_open (handle loaded_lib) ''gamma'' = 300"
  by (simp_all add: resolved_def lookup_symbol_def demo_linker_open_def demo_linker_def
      loaded_lib_def)

lemma demo_fired:
  "ensureLoaded (loaded_lib, demo_linker_open) = (Inr (), loaded_lib, demo_linker_open)"
  by (rule ensureLoaded_fired) (simp add: loaded_lib_def)

text \<open>
  C5 on three variables with the unknown name second: the first variable is set, the
  other two keep their 55; on the library that cannot be loaded; and on two known
  names.
\<close>

theorem batchLoad_fail_fast_witness:
  "ensureLoaded (loaded_lib, demo_linker_open) = (Inr (), loaded_lib, demo_linker_open)
   \<and> resolved demo_linker_open (handle loaded_lib) (fst (demo_batch ! 0)) = 100
   \<and> resolved demo_linker_open (handle loaded_lib) (fst (demo_batch ! 1)) = 0
   \<and> fst (batchLoad demo_batch (loaded_lib, demo_linker_open, demo_store))
       = Inl (RuntimeError (''GetProcAddress failed'' @ dash @ ''beta''))
   \<and> snd (snd (snd (batchLoad demo_batch (loaded_lib, demo_linker_open, demo_store)))) 1 = 100
   \<and> snd (snd (snd (batchLoad demo_batch (loaded_lib, demo_linker_open, demo_store)))) 2 = 55
   \<and> snd (snd (snd (batchLoad demo_batch (loaded_lib, demo_linker_open, demo_store)))) 3 = 55
   \<and> ensureLoaded (missing_lib, demo_linker)
       = (Inl (RuntimeError ''dlopen failed: cannot open shared object file''), missing_lib,
          snd (snd (ensureLoaded (missing_lib, demo_linker))))
   \<and> batchLoad demo_batch (missing_lib, demo_linker, demo_store)
       = (Inl (RuntimeError ''dlopen failed: cannot open shared object file''), missing_lib,
          snd (snd (ensureLoaded (missing_lib, demo_linker))), demo_store)
   \<and> fst (batchLoad full_batch (loaded_lib, demo_linker_open, demo_store)) = Inr ()
   \<and> snd (snd (snd (batchLoad full_batch (loaded_lib, demo_linker_open, demo_store)))) 1 = 100
   \<and> snd (snd (snd (batchLoad full_batch (loaded_lib, demo_linker_open, demo_store)))) 3 = 300"
proof -
  have b: "fst (demo_batch ! 0) = ''alpha''" "fst (demo_batch ! 1) = ''beta''"
    "snd (demo_batch ! 0) = 1" "take 1 demo_batch = [(''alpha'', 1)]"
    "(1::nat) < length demo_batch" "demo_batch \<noteq> []"
    by (simp_all add: demo_batch_def bind_def)
  have pre: "\<forall>i<1. resolved demo_linker_open (handle loaded_lib) (fst (demo_batch ! i)) \<noteq> 0"
    by (simp add: b demo_resolved)
  have a: "\<not> flag missing_lib" "\<not> isLoaded missing_lib"
    by (simp_all add: missing_lib_def makeSharedLibrary_def isLoaded_def)
  have l: "loadable demo_linker (c_str (libPath missing_lib)) = 0"
    by (simp add: missing_lib_def makeSharedLibrary_def demo_eval demo_linker_def)
  have dg: "diagnosis demo_linker (load_call missing_lib) = ''cannot open shared object file''"
    by (simp add: demo_linker_def)
  have e: "ensureLoaded (missing_lib, demo_linker)
       = (Inl (RuntimeError ''dlopen failed: cannot open shared object file''), missing_lib,
          snd (snd (ensureLoaded (missing_lib, demo_linker))))"
    by (simp add: ensureLoaded_fail [OF a l] dg)
  have full: "\<forall>b \<in> set full_batch. resolved demo_linker_open (handle loaded_lib) (fst b) \<noteq> 0"
    "full_batch \<noteq> []"
    by (simp_all add: full_batch_def bind_def demo_resolved)
  from batchLoad_fail_fast
         [where s = loaded_lib and d = demo_linker_open and s' = loaded_lib
            and d' = demo_linker_open and bs = demo_batch and m = demo_store and k = 1
            and name = "''alpha''" and e = UndefinedBehaviour]
       batchLoad_fail_fast
         [where s = missing_lib and d = demo_linker and s' = missing_lib
            and d' = "snd (snd (ensureLoaded (missing_lib, demo_linker)))"
            and bs = demo_batch and m = demo_store and k = 0 and name = "''alpha''"
            and e = "RuntimeError ''dlopen failed: cannot open shared object file''"]
       batchLoad_fail_fast
         [where s = loaded_lib and d = demo_linker_open and s' = loaded_lib
            and d' = demo_linker_open and bs = full_batch and m = demo_store and k = 0
            and name = "''gamma''" and e = UndefinedBehaviour]
       demo_fired pre e full
  show ?thesis
    by (simp add: demo_batch_def full_batch_def bind_def demo_resolved filled_def
        demo_store_def)
qed

text \<open>
  Claim C5, as stated, fails when a binding after the failing one names the variable
  of a binding before it: the batch fails at position 1, and the variable of the
  binding at position 2, which held 55, holds 100.
\<close>

theorem batchLoad_aliased_slot:
  "fst (batchLoad aliased_batch (loaded_lib, demo_linker_open, demo_store))
     = Inl (RuntimeError (''GetProcAddress failed'' @ dash @ ''beta''))
   \<and> snd (aliased_batch ! 2) = 1
   \<and> demo_store 1 = 55
   \<and> snd (snd (snd (batchLoad aliased_batch (loaded_lib, demo_linker_open, demo_store)))) 1 = 100"
proof -
  have b: "fst (aliased_batch ! 0) = ''alpha''" "fst (aliased_batch ! 1) = ''beta''"
    "snd (aliased_batch ! 2) = 1" "take 1 aliased_batch = [(''alpha'', 1)]"
    "(1::nat) < length aliased_batch"
    by (simp_all add: aliased_batch_def bind_def)
  have f: "flag loaded_lib" by (simp add: loaded_lib_def)
  have pre: "\<forall>i<1. resolved demo_linker_open (handle loaded_lib) (fst (aliased_batch ! i)) \<noteq> 0"
    by (simp add: b demo_resolved)
  have at: "resolved demo_linker_open (handle loaded_lib) (fst (aliased_batch ! 1)) = 0"
    by (simp add: aliased_batch_def bind_def demo_resolved)
  from batchLoad_fired [OF f b(5) pre at, of demo_store]
  show ?thesis
    by (simp add: aliased_batch_def bind_def demo_resolved filled_def demo_store_def
        throwLastError_extra)
qed

end
